theory Spec2Isabelle
  imports Complex_Main "HOL-Library.Word"
begin

section \<open>The values of a C float\<close>

text \<open>
  The filter computes on C \<^verbatim>\<open>float\<close>s. A value is a finite number, one of the two
  infinities, or not-a-number. Finite arithmetic is exact here: rounding, overflow of a
  finite result to an infinity and the sign of zero are not modelled (a zero divisor
  behaves as \<^verbatim>\<open>+0\<close>). What is modelled is everything the gate's control flow reads:
  the order, with every comparison against NaN false, \<^verbatim>\<open>fmaxf\<close>/\<^verbatim>\<open>fminf\<close>
  returning the other argument when one is NaN, and division by zero yielding an
  infinity or NaN instead of trapping.
\<close>

datatype cfloat = Fin real | PInf | NInf | NaN

text \<open>The C comparison \<^verbatim>\<open>a < b\<close>; \<^verbatim>\<open>a > b\<close> is \<open>f_less b a\<close>.\<close>

fun f_less :: "cfloat \<Rightarrow> cfloat \<Rightarrow> bool" where
  "f_less (Fin x) (Fin y) = (x < y)"
| "f_less (Fin x) PInf = True"
| "f_less NInf (Fin y) = True"
| "f_less NInf PInf = True"
| "f_less _ _ = False"

fun fabsf :: "cfloat \<Rightarrow> cfloat" where
  "fabsf (Fin x) = Fin \<bar>x\<bar>"
| "fabsf PInf = PInf"
| "fabsf NInf = PInf"
| "fabsf NaN = NaN"

definition fmaxf :: "cfloat \<Rightarrow> cfloat \<Rightarrow> cfloat" where
  "fmaxf a b = (if a = NaN then b else if b = NaN then a else if f_less a b then b else a)"

definition fminf :: "cfloat \<Rightarrow> cfloat \<Rightarrow> cfloat" where
  "fminf a b = (if a = NaN then b else if b = NaN then a else if f_less b a then b else a)"

fun f_neg :: "cfloat \<Rightarrow> cfloat" where
  "f_neg (Fin x) = Fin (- x)"
| "f_neg PInf = NInf"
| "f_neg NInf = PInf"
| "f_neg NaN = NaN"

fun f_add :: "cfloat \<Rightarrow> cfloat \<Rightarrow> cfloat" where
  "f_add (Fin x) (Fin y) = Fin (x + y)"
| "f_add NaN _ = NaN"
| "f_add _ NaN = NaN"
| "f_add PInf NInf = NaN"
| "f_add NInf PInf = NaN"
| "f_add PInf _ = PInf"
| "f_add _ PInf = PInf"
| "f_add NInf _ = NInf"
| "f_add _ NInf = NInf"

definition f_sub :: "cfloat \<Rightarrow> cfloat \<Rightarrow> cfloat" where
  "f_sub a b = f_add a (f_neg b)"

fun f_mul :: "cfloat \<Rightarrow> cfloat \<Rightarrow> cfloat" where
  "f_mul (Fin x) (Fin y) = Fin (x * y)"
| "f_mul NaN _ = NaN"
| "f_mul _ NaN = NaN"
| "f_mul (Fin x) PInf = (if x = 0 then NaN else if 0 < x then PInf else NInf)"
| "f_mul (Fin x) NInf = (if x = 0 then NaN else if 0 < x then NInf else PInf)"
| "f_mul PInf (Fin y) = (if y = 0 then NaN else if 0 < y then PInf else NInf)"
| "f_mul NInf (Fin y) = (if y = 0 then NaN else if 0 < y then NInf else PInf)"
| "f_mul PInf PInf = PInf"
| "f_mul PInf NInf = NInf"
| "f_mul NInf PInf = NInf"
| "f_mul NInf NInf = PInf"

fun f_div :: "cfloat \<Rightarrow> cfloat \<Rightarrow> cfloat" where
  "f_div (Fin x) (Fin y) =
     (if y = 0 then (if x = 0 then NaN else if 0 < x then PInf else NInf) else Fin (x / y))"
| "f_div NaN _ = NaN"
| "f_div _ NaN = NaN"
| "f_div (Fin x) PInf = Fin 0"
| "f_div (Fin x) NInf = Fin 0"
| "f_div PInf (Fin y) = (if y < 0 then NInf else PInf)"
| "f_div NInf (Fin y) = (if y < 0 then PInf else NInf)"
| "f_div PInf PInf = NaN"
| "f_div PInf NInf = NaN"
| "f_div NInf PInf = NaN"
| "f_div NInf NInf = NaN"

text \<open>Conversions \<^verbatim>\<open>(float)\<close> from \<^verbatim>\<open>int\<close> and from \<^verbatim>\<open>uint32_t\<close>.\<close>

definition float_of_int :: "int \<Rightarrow> cfloat" where
  "float_of_int i = Fin (real_of_int i)"

definition float_of_u32 :: "32 word \<Rightarrow> cfloat" where
  "float_of_u32 w = Fin (real (unat w))"

text \<open>The conversion \<^verbatim>\<open>(int)\<close> of a \<^verbatim>\<open>long long\<close>: the low 32 bits, read signed.\<close>

definition int_cast :: "int \<Rightarrow> int" where
  "int_cast x = sint (word_of_int x :: 32 word)"

section \<open>The filter's data\<close>

text \<open>
  \<^verbatim>\<open>struct muted_data\<close>. The miniaudio handles (context, device, decoder, log) belong
  to the audio backend; of them the model keeps what the filter itself tracks: the path
  of the loaded clip and the name of the opened device, \<open>None\<close> for \<^verbatim>\<open>NULL\<close>.
\<close>

record muted_data =
  file_path :: "string option"
  device :: "string option"
  ma_initialized :: bool
  sample_rate_i :: cfloat
  channels :: nat
  open_threshold :: cfloat
  close_threshold :: cfloat
  decay_rate :: cfloat
  attack_rate :: cfloat
  release_rate :: cfloat
  hold_time :: cfloat
  is_open :: bool
  attenuation :: cfloat
  level :: cfloat
  held_time :: cfloat
  cooldown :: "64 word"
  last_play_time :: "64 word"
  file_length :: "64 word"
  audio_indicator :: bool
  visual_indicator :: bool
  indicator_size :: int

text \<open>
  The settings object \<^verbatim>\<open>obs_data_t\<close>, one field per key that \<^verbatim>\<open>muted_update\<close>
  reads. The two thresholds are the decibel values after their cast to \<^verbatim>\<open>float\<close>;
  the integer settings are the \<^verbatim>\<open>long long\<close> values before their cast to
  \<^verbatim>\<open>int\<close>.
\<close>

record settings =
  s_file :: string
  s_device :: string
  s_open_threshold :: cfloat
  s_close_threshold :: cfloat
  s_attack_time :: int
  s_hold_time :: int
  s_release_time :: int
  s_cooldown :: int
  s_audio_indicator :: bool
  s_visual_indicator :: bool
  s_visual_indicator_size :: int

text \<open>
  A decoder that \<^verbatim>\<open>ma_decoder_init_file\<close> initialised: its output sample rate and
  the answer of \<^verbatim>\<open>ma_decoder_get_length_in_pcm_frames\<close> (\<open>None\<close> when that call
  fails).
\<close>

record decoder =
  outputSampleRate :: "32 word"
  length_in_pcm_frames :: "64 word option"

text \<open>
  What the host and the audio backend answer: decoding a file (\<open>None\<close> on failure),
  the names of the playback devices (\<open>None\<close> when enumeration fails), whether a device
  of a given name initialises, and the host's output sample rate and channel count.
\<close>

record backend =
  decoder_init_file :: "string \<Rightarrow> decoder option"
  context_get_devices :: "string list option"
  device_init :: "string \<Rightarrow> bool"
  audio_output_sample_rate :: "32 word"
  audio_output_channels :: nat

text \<open>
  \<^verbatim>\<open>struct obs_audio_data\<close>: \<open>adata j i\<close> is \<^verbatim>\<open>((float **)audio->data)[j][i]\<close>, sample
  \<open>i\<close> of plane \<open>j\<close>.
\<close>

record obs_audio_data =
  adata :: "nat \<Rightarrow> nat \<Rightarrow> cfloat"
  frames :: nat

text \<open>
  What a call of the filter asks of its collaborators: \<^verbatim>\<open>play_audio\<close>, and
  \<^verbatim>\<open>indicator_show\<close>. The latter carries the cooldown, which the C code multiplies by
  \<^verbatim>\<open>0.7f\<close> in the call, and the indicator size.
\<close>

datatype effect = Play_audio | Indicator_show "64 word" int

text \<open>The integer division of \<^verbatim>\<open>load_wav\<close> traps on a zero divisor.\<close>

datatype fault = Division_by_zero

section \<open>Settings update\<close>

definition ms_to_secf :: "int \<Rightarrow> cfloat" where
  "ms_to_secf ms = f_div (float_of_int ms) (Fin 1000)"

text \<open>
  Modelled from the spec: \<^verbatim>\<open>db_to_mul\<close> is declared in libobs
  (\<^verbatim>\<open>media-io/audio-math.h\<close>), which is not part of the repository. The spec gives
  the conversion as \<open>linear = 10^(db/20)\<close>. For a decibel value that is not finite,
  on which the spec is silent, the model takes 0, as libobs does.
\<close>

definition db_to_mul :: "cfloat \<Rightarrow> cfloat" where
  "db_to_mul db = (case db of Fin x \<Rightarrow> Fin (10 powr (x / 20)) | _ \<Rightarrow> Fin 0)"

definition free_device :: "muted_data \<Rightarrow> muted_data" where
  "free_device d = d\<lparr>device := None\<rparr>"

definition free_wav :: "muted_data \<Rightarrow> muted_data" where
  "free_wav d = d\<lparr>file_path := None\<rparr>"

definition load_wav :: "backend \<Rightarrow> muted_data \<Rightarrow> string \<Rightarrow> fault + muted_data" where
  "load_wav env d path =
     (case decoder_init_file env path of
        None \<Rightarrow> Inr d
      | Some dec \<Rightarrow>
          (let d1 = d\<lparr>file_path := Some path\<rparr> in
           case length_in_pcm_frames dec of
             None \<Rightarrow> Inr d1
           | Some frameCount \<Rightarrow>
               if outputSampleRate dec = 0 then Inl Division_by_zero
               else Inr (d1\<lparr>file_length :=
                      (frameCount div ucast (outputSampleRate dec)) * 1000\<rparr>)))"

definition open_device :: "backend \<Rightarrow> muted_data \<Rightarrow> string \<Rightarrow> muted_data" where
  "open_device env d dev =
     (case context_get_devices env of
        None \<Rightarrow> d
      | Some names \<Rightarrow>
          if dev \<notin> set names then d
          else if device_init env dev then d\<lparr>device := Some dev\<rparr>
          else d)"

definition muted_update :: "backend \<Rightarrow> muted_data \<Rightarrow> settings \<Rightarrow> fault + muted_data" where
  "muted_update env ng s =
     (let path = s_file s;
          dev = s_device s;
          open_threshold_db = s_open_threshold s;
          close_threshold_db = s_close_threshold s;
          attack_time_ms = int_cast (s_attack_time s);
          hold_time_ms = int_cast (s_hold_time s);
          release_time_ms = int_cast (s_release_time s);
          sample_rate = float_of_u32 (audio_output_sample_rate env);
          ng1 = ng\<lparr>cooldown := word_of_int (int_cast (s_cooldown s)),
                  audio_indicator := s_audio_indicator s,
                  visual_indicator := s_visual_indicator s,
                  indicator_size := int_cast (s_visual_indicator_size s),
                  sample_rate_i := f_div (Fin 1) sample_rate,
                  channels := audio_output_channels env,
                  open_threshold := db_to_mul open_threshold_db,
                  close_threshold := db_to_mul close_threshold_db,
                  attack_rate := f_div (Fin 1) (f_mul (ms_to_secf attack_time_ms) sample_rate),
                  release_rate := f_div (Fin 1) (f_mul (ms_to_secf release_time_ms) sample_rate)\<rparr>;
          threshold_diff = f_sub (open_threshold ng1) (close_threshold ng1);
          min_decay_period = f_mul (f_div (Fin 1) (Fin 75)) sample_rate;
          ng2 = ng1\<lparr>decay_rate := f_div threshold_diff min_decay_period,
                   hold_time := ms_to_secf hold_time_ms,
                   is_open := False,
                   attenuation := Fin 0,
                   level := Fin 0,
                   held_time := Fin 0\<rparr>
      in case (if file_path ng2 = None \<or> Some path \<noteq> file_path ng2
               then (case load_wav env (free_wav ng2) path of
                       Inl f \<Rightarrow> Inl f
                     | Inr d \<Rightarrow> Inr (open_device env (free_device d) dev))
               else Inr ng2) of
           Inl f \<Rightarrow> Inl f
         | Inr ng3 \<Rightarrow>
             Inr (if device ng3 = None \<or> Some dev \<noteq> device ng3
                  then open_device env (free_device ng3) dev
                  else ng3))"

section \<open>The audio callback\<close>

text \<open>
  The level of sample \<open>i\<close>: the C code starts from plane 0 and then folds
  \<^verbatim>\<open>fmaxf\<close> over the planes \<open>0 .. channels - 1\<close>.
\<close>

definition cur_level_of :: "nat \<Rightarrow> (nat \<Rightarrow> nat \<Rightarrow> cfloat) \<Rightarrow> nat \<Rightarrow> cfloat" where
  "cur_level_of chans ad i =
     foldl (\<lambda>c j. fmaxf c (fabsf (ad j i))) (fabsf (ad 0 i)) [0..<chans]"

text \<open>
  The body of the sample loop, after \<open>cur_level\<close> is known. The thresholds and rates
  that the C code copies into locals before the loop are fields the body never writes,
  so they are read from the state.
\<close>

definition process_sample :: "muted_data \<Rightarrow> cfloat \<Rightarrow> muted_data" where
  "process_sample ng cur_level =
     (let ng1 = (if f_less (open_threshold ng) cur_level \<and> \<not> is_open ng
                 then ng\<lparr>is_open := True\<rparr> else ng);
          ng2 = (if f_less (level ng1) (close_threshold ng1) \<and> is_open ng1
                 then ng1\<lparr>held_time := Fin 0, is_open := False\<rparr> else ng1);
          ng3 = ng2\<lparr>level := f_sub (fmaxf (level ng2) cur_level) (decay_rate ng2)\<rparr>
      in if is_open ng3
         then ng3\<lparr>attenuation := fminf (Fin 1) (f_add (attenuation ng3) (attack_rate ng3))\<rparr>
         else (let ng4 = ng3\<lparr>held_time := f_add (held_time ng3) (sample_rate_i ng3)\<rparr>
               in if f_less (hold_time ng4) (held_time ng4)
                  then ng4\<lparr>attenuation :=
                         fmaxf (Fin 0) (f_sub (attenuation ng4) (release_rate ng4))\<rparr>
                  else ng4))"

text \<open>
  The loop \<^verbatim>\<open>for (; i < n; i++)\<close> over the samples; the callback runs it from
  \<open>i = 0\<close> with \<open>n = audio->frames\<close>.
\<close>

function gate_loop :: "(nat \<Rightarrow> nat \<Rightarrow> cfloat) \<Rightarrow> nat \<Rightarrow> nat \<Rightarrow> muted_data \<Rightarrow> muted_data" where
  "gate_loop ad n i ng =
     (if i < n
      then gate_loop ad n (Suc i) (process_sample ng (cur_level_of (channels ng) ad i))
      else ng)"
  by pat_completeness auto
termination
  by (relation "measure (\<lambda>(ad, n, i, ng). n - i)") auto

text \<open>
  \<^verbatim>\<open>muted_filter_audio\<close>. \<open>muted\<close> is the answer of \<^verbatim>\<open>obs_source_muted\<close> for the
  parent source, \<open>now_ns\<close> the answer of \<^verbatim>\<open>os_gettime_ns\<close>. The result is the new
  state and the requests made, in order.
\<close>

definition muted_filter_audio ::
    "muted_data \<Rightarrow> bool \<Rightarrow> obs_audio_data \<Rightarrow> 64 word \<Rightarrow> muted_data \<times> effect list" where
  "muted_filter_audio ng muted audio now_ns =
     (if \<not> muted then (ng\<lparr>is_open := False\<rparr>, [])
      else
        (let ng1 = gate_loop (adata audio) (frames audio) 0 ng;
             time = now_ns div 1000000
         in if is_open ng1 \<and> file_length ng1 + cooldown ng1 < time - last_play_time ng1
            then (ng1\<lparr>last_play_time := time\<rparr>,
                  (if audio_indicator ng1 then [Play_audio] else []) @
                  (if visual_indicator ng1
                   then [Indicator_show (cooldown ng1) (indicator_size ng1)] else []))
            else (ng1, [])))"

declare gate_loop.simps [simp del]

section \<open>Runs of the callback\<close>

text \<open>
  The host calls the filter once per buffer. A call is the mute state of the parent
  source, the buffer, and the clock reading; \<open>run_state\<close> is the state after a
  sequence of calls and \<open>run_effects\<close> the requests they made.
\<close>

type_synonym filter_call = "bool \<times> obs_audio_data \<times> 64 word"

definition filter_call :: "muted_data \<Rightarrow> filter_call \<Rightarrow> muted_data \<times> effect list" where
  "filter_call ng c = muted_filter_audio ng (fst c) (fst (snd c)) (snd (snd c))"

fun run_state :: "muted_data \<Rightarrow> filter_call list \<Rightarrow> muted_data" where
  "run_state ng [] = ng"
| "run_state ng (c # cs) = run_state (fst (filter_call ng c)) cs"

fun run_effects :: "muted_data \<Rightarrow> filter_call list \<Rightarrow> effect list" where
  "run_effects ng [] = []"
| "run_effects ng (c # cs) = snd (filter_call ng c) @ run_effects (fst (filter_call ng c)) cs"

section \<open>Example inputs\<close>

text \<open>The zeroed struct that \<^verbatim>\<open>muted_create\<close> allocates with \<^verbatim>\<open>bzalloc\<close>.\<close>

definition bzalloc_muted_data :: muted_data where
  "bzalloc_muted_data =
     \<lparr>file_path = None, device = None, ma_initialized = False, sample_rate_i = Fin 0,
      channels = 0, open_threshold = Fin 0, close_threshold = Fin 0, decay_rate = Fin 0,
      attack_rate = Fin 0, release_rate = Fin 0, hold_time = Fin 0, is_open = False,
      attenuation = Fin 0, level = Fin 0, held_time = Fin 0, cooldown = 0,
      last_play_time = 0, file_length = 0, audio_indicator = False,
      visual_indicator = False, indicator_size = 0\<rparr>"

text \<open>The settings that \<^verbatim>\<open>muted_defaults\<close> installs.\<close>

definition muted_defaults :: settings where
  "muted_defaults =
     \<lparr>s_file = ''urmuted.wav'', s_device = [], s_open_threshold = Fin (- 26),
      s_close_threshold = Fin (- 32), s_attack_time = 25, s_hold_time = 200,
      s_release_time = 150, s_cooldown = 1500, s_audio_indicator = False,
      s_visual_indicator = True, s_visual_indicator_size = 45\<rparr>"

text \<open>
  The defaults with thresholds of -20 dB and -40 dB, whose linear values 1/10 and 1/100
  are rational, with both indicators enabled and a playback device chosen.
\<close>

definition example_settings :: settings where
  "example_settings =
     muted_defaults\<lparr>s_device := ''Speakers'', s_open_threshold := Fin (- 20),
                    s_close_threshold := Fin (- 40), s_audio_indicator := True\<rparr>"

text \<open>
  A host running at 48 kHz stereo, with one playback device, whose decoder reports a
  clip of 72000 frames at 48 kHz (one and a half seconds).
\<close>

definition host48k :: backend where
  "host48k =
     \<lparr>decoder_init_file =
        (\<lambda>p. Some \<lparr>outputSampleRate = 48000, length_in_pcm_frames = Some 72000\<rparr>),
      context_get_devices = Some [''Speakers''],
      device_init = (\<lambda>d. True),
      audio_output_sample_rate = 48000,
      audio_output_channels = 2\<rparr>"

text \<open>The state that \<open>example_settings\<close> configure on that host.\<close>

definition configured48k :: muted_data where
  "configured48k =
     \<lparr>file_path = Some ''urmuted.wav'', device = Some ''Speakers'', ma_initialized = False,
      sample_rate_i = Fin (1 / 48000), channels = 2, open_threshold = Fin (1 / 10),
      close_threshold = Fin (1 / 100), decay_rate = Fin (9 / 64000),
      attack_rate = Fin (1 / 1200), release_rate = Fin (1 / 7200), hold_time = Fin (1 / 5),
      is_open = False, attenuation = Fin 0, level = Fin 0, held_time = Fin 0,
      cooldown = 1500, last_play_time = 0, file_length = 1000, audio_indicator = True,
      visual_indicator = True, indicator_size = 45\<rparr>"

text \<open>Buffers of \<open>n\<close> frames holding the same value in every plane.\<close>

definition constant_audio :: "cfloat \<Rightarrow> nat \<Rightarrow> obs_audio_data" where
  "constant_audio v n = \<lparr>adata = (\<lambda>j i. v), frames = n\<rparr>"

text \<open>
  The state after the first buffer of speech into the muted microphone: two frames of
  amplitude 1/2 at clock 5000 ms, which opened the gate and fired the notification.
\<close>

definition talking48k :: muted_data where
  "talking48k =
     configured48k\<lparr>is_open := True, attenuation := Fin (1 / 1200),
                   level := Fin (31991 / 64000), held_time := Fin (1 / 48000),
                   last_play_time := 5000\<rparr>"

text \<open>
  That state after the parent source was unmuted for a buffer, which closes the gate and
  leaves the level where it was.
\<close>

definition warm48k :: muted_data where
  "warm48k = talking48k\<lparr>is_open := False\<rparr>"

text \<open>
  The gate still open after speech has stopped, when the level has decayed below the
  close threshold.
\<close>

definition fading48k :: muted_data where
  "fading48k = talking48k\<lparr>attenuation := Fin 1, level := Fin (635 / 64000)\<rparr>"

text \<open>That host with a decoder that reports the clip's length at a sample rate of 0.\<close>

definition host_zero_rate :: backend where
  "host_zero_rate =
     host48k\<lparr>decoder_init_file :=
        (\<lambda>p. Some \<lparr>outputSampleRate = 0, length_in_pcm_frames = Some 72000\<rparr>)\<rparr>"

section \<open>Predicates of the statements\<close>

text \<open>A value in the closed interval from 0 to 1.\<close>

fun unit_interval :: "cfloat \<Rightarrow> bool" where
  "unit_interval (Fin x) = (0 \<le> x \<and> x \<le> 1)"
| "unit_interval _ = False"

text \<open>
  A call that cannot open the gate of a filter with the thresholds of \<open>ng\<close>: the
  parent source is not muted, or no sample of the buffer is above the open threshold.
\<close>

definition quiet_call :: "muted_data \<Rightarrow> filter_call \<Rightarrow> bool" where
  "quiet_call ng c =
     (\<not> fst c \<or>
      (\<forall>i<frames (fst (snd c)).
         \<not> f_less (open_threshold ng) (cur_level_of (channels ng) (adata (fst (snd c))) i)))"

text \<open>
  A call whose clock reading, in milliseconds, is not more than the file length plus the
  cooldown past \<open>last_play_time\<close>, in the unsigned 64-bit arithmetic of the callback.
\<close>

definition within_window :: "muted_data \<Rightarrow> filter_call \<Rightarrow> bool" where
  "within_window ng c =
     (\<not> file_length ng + cooldown ng < snd (snd c) div 1000000 - last_play_time ng)"

text \<open>
  The invariant behind the bound on the attenuation: it lies between 0 and 1, and neither
  rate is negative.
\<close>

definition att_inv :: "muted_data \<Rightarrow> bool" where
  "att_inv ng =
     (unit_interval (attenuation ng) \<and> \<not> f_less (attack_rate ng) (Fin 0) \<and>
      \<not> f_less (release_rate ng) (Fin 0))"

text \<open>
  The settings update reaches the integer division of \<^verbatim>\<open>load_wav\<close> with a zero
  divisor: the clip path is new, the decoder opens the file and reports its length, and
  its output sample rate is 0.
\<close>

definition clip_load_traps :: "backend \<Rightarrow> muted_data \<Rightarrow> settings \<Rightarrow> bool" where
  "clip_load_traps env ng s =
     (file_path ng \<noteq> Some (s_file s) \<and>
      (case decoder_init_file env (s_file s) of
         None \<Rightarrow> False
       | Some dec \<Rightarrow> length_in_pcm_frames dec \<noteq> None \<and> outputSampleRate dec = 0))"

section \<open>Basic facts\<close>

subsection \<open>Arithmetic\<close>

lemma f_add_zero_left: "f_add (Fin 0) x = x"
  by (cases x) simp_all

lemma int_cast_id: "- 2147483648 \<le> x \<Longrightarrow> x < 2147483648 \<Longrightarrow> int_cast x = x"
  unfolding int_cast_def by (simp add: signed_of_int signed_take_bit_int_eq_self)

lemma ten_powr_minus_two: "(10::real) powr (- 2) = 1 / 100"
proof -
  have "(10::real) powr (- 2) = inverse (10 powr 2)"
    by (rule powr_minus)
  also have "(10::real) powr 2 = 10 ^ 2"
    by (rule powr_numeral) simp
  finally show ?thesis by simp
qed

subsection \<open>One sample\<close>

lemma is_open_process_sample:
  "is_open (process_sample ng c) =
     ((is_open ng \<or> f_less (open_threshold ng) c) \<and> \<not> f_less (level ng) (close_threshold ng))"
  by (auto simp: process_sample_def Let_def)

lemma level_process_sample:
  "level (process_sample ng c) = f_sub (fmaxf (level ng) c) (decay_rate ng)"
  by (simp add: process_sample_def Let_def)

lemma held_time_process_sample:
  "held_time (process_sample ng c) =
     (if is_open (process_sample ng c) then held_time ng
      else f_add (if is_open ng \<or> f_less (open_threshold ng) c then Fin 0 else held_time ng)
             (sample_rate_i ng))"
  by (auto simp: process_sample_def Let_def)

lemma attenuation_process_sample:
  "attenuation (process_sample ng c) =
     (if is_open (process_sample ng c)
      then fminf (Fin 1) (f_add (attenuation ng) (attack_rate ng))
      else if f_less (hold_time ng) (held_time (process_sample ng c))
      then fmaxf (Fin 0) (f_sub (attenuation ng) (release_rate ng))
      else attenuation ng)"
  by (auto simp: process_sample_def Let_def)

lemma process_sample_frame:
  "file_path (process_sample ng c) = file_path ng"
  "device (process_sample ng c) = device ng"
  "ma_initialized (process_sample ng c) = ma_initialized ng"
  "sample_rate_i (process_sample ng c) = sample_rate_i ng"
  "channels (process_sample ng c) = channels ng"
  "open_threshold (process_sample ng c) = open_threshold ng"
  "close_threshold (process_sample ng c) = close_threshold ng"
  "decay_rate (process_sample ng c) = decay_rate ng"
  "attack_rate (process_sample ng c) = attack_rate ng"
  "release_rate (process_sample ng c) = release_rate ng"
  "hold_time (process_sample ng c) = hold_time ng"
  "cooldown (process_sample ng c) = cooldown ng"
  "last_play_time (process_sample ng c) = last_play_time ng"
  "file_length (process_sample ng c) = file_length ng"
  "audio_indicator (process_sample ng c) = audio_indicator ng"
  "visual_indicator (process_sample ng c) = visual_indicator ng"
  "indicator_size (process_sample ng c) = indicator_size ng"
  by (simp_all add: process_sample_def Let_def)

lemma cur_level_of_constant: "cur_level_of n (\<lambda>j i. v) i = fabsf v"
  unfolding cur_level_of_def
  by (induction n) (simp_all add: fmaxf_def)

subsection \<open>The sample loop\<close>

lemma gate_loop_invariant:
  assumes step: "\<And>s c. P s \<Longrightarrow> P (process_sample s c)"
  shows "P ng \<Longrightarrow> P (gate_loop ad n i ng)"
proof (induction ad n i ng rule: gate_loop.induct)
  case (1 ad n i ng)
  show ?case
  proof (cases "i < n")
    case True
    have "P (process_sample ng (cur_level_of (channels ng) ad i))"
      using "1.prems" by (rule step)
    with True "1.IH" show ?thesis
      by (subst gate_loop.simps) simp
  next
    case False
    with "1.prems" show ?thesis
      by (subst gate_loop.simps) simp
  qed
qed

lemma gate_loop_frame:
  "channels (gate_loop ad n i ng) = channels ng \<and>
   open_threshold (gate_loop ad n i ng) = open_threshold ng \<and>
   close_threshold (gate_loop ad n i ng) = close_threshold ng \<and>
   decay_rate (gate_loop ad n i ng) = decay_rate ng \<and>
   attack_rate (gate_loop ad n i ng) = attack_rate ng \<and>
   release_rate (gate_loop ad n i ng) = release_rate ng \<and>
   cooldown (gate_loop ad n i ng) = cooldown ng \<and>
   last_play_time (gate_loop ad n i ng) = last_play_time ng \<and>
   file_length (gate_loop ad n i ng) = file_length ng \<and>
   audio_indicator (gate_loop ad n i ng) = audio_indicator ng \<and>
   visual_indicator (gate_loop ad n i ng) = visual_indicator ng \<and>
   indicator_size (gate_loop ad n i ng) = indicator_size ng"
  by (rule gate_loop_invariant) (simp_all add: process_sample_frame)

lemma gate_loop_Suc:
  "i \<le> n \<Longrightarrow>
     gate_loop ad (Suc n) i ng =
       process_sample (gate_loop ad n i ng) (cur_level_of (channels ng) ad n)"
proof (induction ad n i ng rule: gate_loop.induct)
  case (1 ad n i ng)
  show ?case
  proof (cases "i < n")
    case True
    have "gate_loop ad (Suc n) i ng =
        gate_loop ad (Suc n) (Suc i) (process_sample ng (cur_level_of (channels ng) ad i))"
      using True by (subst gate_loop.simps) simp
    also have "\<dots> = process_sample
        (gate_loop ad n (Suc i) (process_sample ng (cur_level_of (channels ng) ad i)))
        (cur_level_of (channels ng) ad n)"
      using True "1.IH" by (simp add: process_sample_frame)
    also have "gate_loop ad n (Suc i) (process_sample ng (cur_level_of (channels ng) ad i)) =
        gate_loop ad n i ng"
      using True by (subst (2) gate_loop.simps) simp
    finally show ?thesis .
  next
    case False
    with "1.prems" have "i = n" by simp
    then show ?thesis
      by (simp add: gate_loop.simps)
  qed
qed

subsection \<open>The callback\<close>

lemma muted_filter_audio_unmuted:
  "muted_filter_audio ng False audio now_ns = (ng\<lparr>is_open := False\<rparr>, [])"
  by (simp add: muted_filter_audio_def)

lemma muted_filter_audio_quiet:
  assumes "\<not> file_length ng + cooldown ng < now_ns div 1000000 - last_play_time ng"
  shows "snd (muted_filter_audio ng muted audio now_ns) = []"
    and "last_play_time (fst (muted_filter_audio ng muted audio now_ns)) = last_play_time ng"
  using assms by (simp_all add: muted_filter_audio_def Let_def gate_loop_frame)

lemma muted_filter_audio_frame:
  "cooldown (fst (muted_filter_audio ng muted audio now_ns)) = cooldown ng"
  "file_length (fst (muted_filter_audio ng muted audio now_ns)) = file_length ng"
  "channels (fst (muted_filter_audio ng muted audio now_ns)) = channels ng"
  "open_threshold (fst (muted_filter_audio ng muted audio now_ns)) = open_threshold ng"
  "close_threshold (fst (muted_filter_audio ng muted audio now_ns)) = close_threshold ng"
  "attack_rate (fst (muted_filter_audio ng muted audio now_ns)) = attack_rate ng"
  "release_rate (fst (muted_filter_audio ng muted audio now_ns)) = release_rate ng"
  "audio_indicator (fst (muted_filter_audio ng muted audio now_ns)) = audio_indicator ng"
  "visual_indicator (fst (muted_filter_audio ng muted audio now_ns)) = visual_indicator ng"
  "indicator_size (fst (muted_filter_audio ng muted audio now_ns)) = indicator_size ng"
  by (simp_all add: muted_filter_audio_def Let_def gate_loop_frame)

subsection \<open>The settings update\<close>

lemma open_device_shape:
  "open_device env d dev = d\<lparr>device := device (open_device env d dev)\<rparr>"
  by (simp add: open_device_def split: option.splits)

lemma load_wav_shape:
  "load_wav env d p = Inr d' \<Longrightarrow>
     d' = d\<lparr>file_path := file_path d', file_length := file_length d'\<rparr>"
  by (auto simp: load_wav_def Let_def split: option.splits if_splits)

text \<open>
  Every field that a completed update may have written, with the value it then has;
  \<open>last_play_time\<close> and \<open>ma_initialized\<close> are not among them.
\<close>

lemma muted_update_shape:
  assumes "muted_update env ng s = Inr ng'"
  shows "ng' = ng\<lparr>cooldown := word_of_int (int_cast (s_cooldown s)),
                  audio_indicator := s_audio_indicator s,
                  visual_indicator := s_visual_indicator s,
                  indicator_size := int_cast (s_visual_indicator_size s),
                  sample_rate_i := f_div (Fin 1) (float_of_u32 (audio_output_sample_rate env)),
                  channels := audio_output_channels env,
                  open_threshold := db_to_mul (s_open_threshold s),
                  close_threshold := db_to_mul (s_close_threshold s),
                  attack_rate := f_div (Fin 1) (f_mul (ms_to_secf (int_cast (s_attack_time s)))
                                   (float_of_u32 (audio_output_sample_rate env))),
                  release_rate := f_div (Fin 1) (f_mul (ms_to_secf (int_cast (s_release_time s)))
                                   (float_of_u32 (audio_output_sample_rate env))),
                  decay_rate := f_div (f_sub (db_to_mul (s_open_threshold s))
                                          (db_to_mul (s_close_threshold s)))
                                  (f_mul (f_div (Fin 1) (Fin 75))
                                     (float_of_u32 (audio_output_sample_rate env))),
                  hold_time := ms_to_secf (int_cast (s_hold_time s)),
                  is_open := False, attenuation := Fin 0, level := Fin 0, held_time := Fin 0,
                  file_path := file_path ng', file_length := file_length ng',
                  device := device ng'\<rparr>"
  using assms
  unfolding muted_update_def Let_def free_wav_def free_device_def
  apply (simp split: sum.splits if_splits)
  apply (auto dest!: load_wav_shape simp: open_device_def split: option.splits if_splits)
  done

text \<open>The update completes unless the decoder of the new clip reports a zero sample rate.\<close>

lemma load_wav_completes:
  "(\<And>dec. decoder_init_file env p = Some dec \<Longrightarrow> outputSampleRate dec \<noteq> 0) \<Longrightarrow>
     \<exists>d'. load_wav env d p = Inr d'"
  by (auto simp: load_wav_def Let_def split: option.splits)

lemma muted_update_completes:
  assumes "\<And>dec. decoder_init_file env (s_file s) = Some dec \<Longrightarrow> outputSampleRate dec \<noteq> 0"
  shows "\<exists>ng'. muted_update env ng s = Inr ng'"
proof -
  have "\<exists>d'. load_wav env d (s_file s) = Inr d'" for d
    using assms by (rule load_wav_completes)
  then have "load_wav env d (s_file s) \<noteq> Inl f" for d f
    by (metis Inl_Inr_False)
  then show ?thesis
    unfolding muted_update_def Let_def
    by (simp split: sum.splits)
qed

subsection \<open>The examples\<close>

lemma configured48k_eq:
  "muted_update host48k bzalloc_muted_data example_settings = Inr configured48k"
  by (simp add: muted_update_def bzalloc_muted_data_def muted_defaults_def example_settings_def
      host48k_def configured48k_def Let_def load_wav_def free_wav_def free_device_def
      open_device_def db_to_mul_def ms_to_secf_def float_of_int_def float_of_u32_def f_sub_def
      int_cast_id ten_powr_minus_two)

lemma talking48k_reached:
  "muted_filter_audio configured48k True (constant_audio (Fin (1 / 2)) 2) 5000000000 =
     (talking48k, [Play_audio, Indicator_show 1500 45])"
  by (simp add: muted_filter_audio_def constant_audio_def gate_loop.simps cur_level_of_constant
      process_sample_def Let_def configured48k_def talking48k_def fmaxf_def fminf_def f_sub_def)

lemma update_talking48k:
  "muted_update host48k talking48k example_settings =
     Inr (configured48k\<lparr>last_play_time := 5000\<rparr>)"
  by (simp add: muted_update_def talking48k_def muted_defaults_def example_settings_def
      host48k_def configured48k_def Let_def load_wav_def free_wav_def free_device_def
      open_device_def db_to_mul_def ms_to_secf_def float_of_int_def float_of_u32_def f_sub_def
      int_cast_id ten_powr_minus_two)

subsection \<open>Levels and thresholds\<close>

lemma f_less_fmaxf: "f_less t (fmaxf a b) = (f_less t a \<or> f_less t b)"
  by (cases t; cases a; cases b) (auto simp: fmaxf_def)

text \<open>
  The level of a sample exceeds a threshold exactly when the absolute value of plane 0
  or of one of the channels does.
\<close>

lemma f_less_cur_level_of:
  "f_less t (cur_level_of n ad i) =
     (f_less t (fabsf (ad 0 i)) \<or> (\<exists>j<n. f_less t (fabsf (ad j i))))"
  unfolding cur_level_of_def
  by (induction n) (auto simp: f_less_fmaxf less_Suc_eq)

lemma warm48k_reached:
  "muted_filter_audio talking48k False audio now_ns = (warm48k, [])"
  by (simp add: muted_filter_audio_def warm48k_def)

subsection \<open>Clip length\<close>

lemma load_wav_file_length:
  "decoder_init_file env p = Some dec \<Longrightarrow> length_in_pcm_frames dec = Some n \<Longrightarrow>
   outputSampleRate dec \<noteq> 0 \<Longrightarrow>
     load_wav env d p =
       Inr (d\<lparr>file_path := Some p,
              file_length := (n div ucast (outputSampleRate dec)) * 1000\<rparr>)"
  by (simp add: load_wav_def)

subsection \<open>Attenuation\<close>

lemma fminf_unit_interval:
  "unit_interval a \<Longrightarrow> \<not> f_less r (Fin 0) \<Longrightarrow> unit_interval (fminf (Fin 1) (f_add a r))"
  by (cases a; cases r) (auto simp: fminf_def)

lemma fmaxf_unit_interval:
  "unit_interval a \<Longrightarrow> \<not> f_less r (Fin 0) \<Longrightarrow> unit_interval (fmaxf (Fin 0) (f_sub a r))"
  by (cases a; cases r) (auto simp: fmaxf_def f_sub_def)

lemma process_sample_attenuation:
  assumes "unit_interval (attenuation ng)" "\<not> f_less (attack_rate ng) (Fin 0)"
    "\<not> f_less (release_rate ng) (Fin 0)"
  shows "unit_interval (attenuation (process_sample ng c))"
  using assms by (simp add: attenuation_process_sample fminf_unit_interval fmaxf_unit_interval)

lemma att_inv_process_sample: "att_inv ng \<Longrightarrow> att_inv (process_sample ng c)"
  by (simp add: att_inv_def process_sample_attenuation process_sample_frame)

lemma att_inv_gate_loop: "att_inv ng \<Longrightarrow> att_inv (gate_loop ad n i ng)"
  by (rule gate_loop_invariant) (rule att_inv_process_sample)

lemma att_inv_filter: "att_inv ng \<Longrightarrow> att_inv (fst (muted_filter_audio ng m a t))"
  using att_inv_gate_loop [of ng "adata a" "frames a" 0]
  by (simp add: muted_filter_audio_def Let_def att_inv_def)

lemma att_inv_run_state: "att_inv ng \<Longrightarrow> att_inv (run_state ng cs)"
  by (induction cs arbitrary: ng) (simp_all add: filter_call_def att_inv_filter)

lemma rate_nonneg:
  assumes "0 \<le> ms"
  shows "\<not> f_less (f_div (Fin 1) (f_mul (ms_to_secf ms) (float_of_u32 sr))) (Fin 0)"
proof -
  define p where "p = real_of_int ms / 1000 * real (unat sr)"
  have "f_mul (ms_to_secf ms) (float_of_u32 sr) = Fin p"
    by (simp add: p_def ms_to_secf_def float_of_int_def float_of_u32_def)
  moreover have "0 \<le> p"
    unfolding p_def using assms by (intro mult_nonneg_nonneg divide_nonneg_nonneg of_nat_0_le_iff) simp_all
  ultimately show ?thesis
    by (simp add: not_less)
qed

lemma att_inv_muted_update:
  assumes "muted_update env ng0 s = Inr ng" "0 \<le> int_cast (s_attack_time s)"
    "0 \<le> int_cast (s_release_time s)"
  shows "att_inv ng"
  using assms(2,3)
  by (subst muted_update_shape [OF assms(1)]) (simp add: att_inv_def rate_nonneg)

lemma run_one:
  "run_state configured48k [(True, constant_audio (Fin (1 / 2)) 2, 5000000000)] = talking48k"
  by (simp add: filter_call_def talking48k_reached)

text \<open>The state after the first \<open>k\<close> samples of a buffer is where the rest of the loop starts.\<close>

lemma gate_loop_prefix:
  "k \<le> n \<Longrightarrow> gate_loop ad n 0 ng = gate_loop ad n k (gate_loop ad k 0 ng)"
proof (induction k)
  case 0
  show ?case by (simp add: gate_loop.simps [of ad 0])
next
  case (Suc k)
  then have "gate_loop ad n 0 ng = gate_loop ad n k (gate_loop ad k 0 ng)"
    by simp
  also have "\<dots> = gate_loop ad n (Suc k)
      (process_sample (gate_loop ad k 0 ng) (cur_level_of (channels ng) ad k))"
    using Suc.prems by (subst gate_loop.simps) (simp add: gate_loop_frame)
  finally show ?case
    by (simp add: gate_loop_Suc)
qed

subsection \<open>The level\<close>







subsection \<open>Calls that cannot open the gate\<close>

lemma gate_loop_stays_closed:
  "\<not> is_open s \<Longrightarrow>
   (\<forall>i<n. \<not> f_less (open_threshold s) (cur_level_of (channels s) ad i)) \<Longrightarrow>
     \<not> is_open (gate_loop ad n 0 s)"
proof (induction n)
  case 0
  then show ?case by (simp add: gate_loop.simps)
next
  case (Suc n)
  then have "\<not> is_open (gate_loop ad n 0 s)"
    by simp
  moreover have "\<not> f_less (open_threshold s) (cur_level_of (channels s) ad n)"
    using Suc.prems by simp
  ultimately show ?case
    by (simp add: gate_loop_Suc is_open_process_sample gate_loop_frame)
qed

lemma quiet_call_step:
  assumes "\<not> is_open s" "open_threshold s = open_threshold ng" "channels s = channels ng"
    and "quiet_call ng c"
  shows "snd (filter_call s c) = []"
    and "\<not> is_open (fst (filter_call s c))"
    and "last_play_time (fst (filter_call s c)) = last_play_time s"
proof -
  have closed: "\<not> is_open (gate_loop (adata (fst (snd c))) (frames (fst (snd c))) 0 s)"
    if "fst c"
    using assms that by (intro gate_loop_stays_closed) (simp_all add: quiet_call_def)
  show "snd (filter_call s c) = []"
    using closed by (simp add: filter_call_def muted_filter_audio_def Let_def)
  show "\<not> is_open (fst (filter_call s c))"
    using closed by (simp add: filter_call_def muted_filter_audio_def Let_def)
  show "last_play_time (fst (filter_call s c)) = last_play_time s"
    using closed by (simp add: filter_call_def muted_filter_audio_def Let_def gate_loop_frame)
qed

lemma quiet_run:
  "list_all (quiet_call ng) cs \<Longrightarrow> \<not> is_open s \<Longrightarrow> open_threshold s = open_threshold ng \<Longrightarrow>
   channels s = channels ng \<Longrightarrow>
     run_effects s cs = [] \<and> \<not> is_open (run_state s cs) \<and>
     last_play_time (run_state s cs) = last_play_time s"
proof (induction cs arbitrary: s)
  case Nil
  then show ?case by simp
next
  case (Cons c cs)
  from Cons.prems have q: "quiet_call ng c" and qs: "list_all (quiet_call ng) cs"
    by simp_all
  note step = quiet_call_step [OF Cons.prems(2,3,4) q]
  have "run_effects (fst (filter_call s c)) cs = [] \<and>
      \<not> is_open (run_state (fst (filter_call s c)) cs) \<and>
      last_play_time (run_state (fst (filter_call s c)) cs) =
        last_play_time (fst (filter_call s c))"
    using qs step(2) Cons.prems(3,4)
    by (intro Cons.IH) (simp_all add: filter_call_def muted_filter_audio_frame)
  with step show ?case
    by simp
qed

subsection \<open>Calls within the refractory window\<close>

text \<open>
  While the clock has not run backwards past the last trigger and the sum of file length
  and cooldown does not overflow, the trigger test of the callback is the comparison of
  the elapsed milliseconds with that sum in the natural numbers.
\<close>

lemma trigger_test_nat:
  fixes t l f c :: "64 word"
  assumes "l \<le> t" "unat f + unat c < 2 ^ 64"
  shows "(f + c < t - l) = (unat f + unat c < unat t - unat l)"
proof -
  have "unat (f + c) = unat f + unat c"
    using assms(2) unat_add_lem [of f c] by simp
  moreover have "unat (t - l) = unat t - unat l"
    using assms(1) by (simp add: unat_sub)
  ultimately show ?thesis
    by (simp add: word_less_nat_alt)
qed

lemma window_step:
  assumes "last_play_time s = last_play_time ng" "file_length s = file_length ng"
    "cooldown s = cooldown ng" "within_window ng c"
  shows "snd (filter_call s c) = []"
    and "last_play_time (fst (filter_call s c)) = last_play_time ng"
  using assms muted_filter_audio_quiet [of s "snd (snd c)" "fst c" "fst (snd c)"]
  by (simp_all add: filter_call_def within_window_def)

lemma window_run:
  "list_all (within_window ng) cs \<Longrightarrow> last_play_time s = last_play_time ng \<Longrightarrow>
   file_length s = file_length ng \<Longrightarrow> cooldown s = cooldown ng \<Longrightarrow>
     run_effects s cs = [] \<and> last_play_time (run_state s cs) = last_play_time ng"
proof (induction cs arbitrary: s)
  case Nil
  then show ?case by simp
next
  case (Cons c cs)
  from Cons.prems have w: "within_window ng c" and ws: "list_all (within_window ng) cs"
    by simp_all
  note step = window_step [OF Cons.prems(2,3,4) w]
  have "run_effects (fst (filter_call s c)) cs = [] \<and>
      last_play_time (run_state (fst (filter_call s c)) cs) = last_play_time ng"
    using ws step(2) Cons.prems(3,4)
    by (intro Cons.IH) (simp_all add: filter_call_def muted_filter_audio_frame)
  with step show ?case
    by simp
qed

lemma run_state_frame:
  "file_length (run_state s cs) = file_length s \<and> cooldown (run_state s cs) = cooldown s \<and>
   audio_indicator (run_state s cs) = audio_indicator s \<and>
   visual_indicator (run_state s cs) = visual_indicator s \<and>
   indicator_size (run_state s cs) = indicator_size s"
  by (induction cs arbitrary: s) (simp_all add: filter_call_def muted_filter_audio_frame)

lemma talking48k_two_more_buffers:
  "run_state talking48k
     [(True, constant_audio (Fin (1 / 2)) 2, 6000000000),
      (True, constant_audio (Fin (1 / 2)) 2, 7500000000)] =
     talking48k\<lparr>attenuation := Fin (1 / 240)\<rparr>"
  by (simp add: filter_call_def muted_filter_audio_def constant_audio_def gate_loop.simps
      cur_level_of_constant process_sample_def Let_def configured48k_def talking48k_def
      fmaxf_def fminf_def f_sub_def)

subsection \<open>Completion of the settings update\<close>

lemma load_wav_traps:
  "load_wav env d p = Inl f \<longleftrightarrow>
     f = Division_by_zero \<and>
     (case decoder_init_file env p of
        None \<Rightarrow> False
      | Some dec \<Rightarrow> length_in_pcm_frames dec \<noteq> None \<and> outputSampleRate dec = 0)"
  by (cases f) (auto simp: load_wav_def Let_def split: option.splits)

lemma muted_update_traps:
  "muted_update env ng s = Inl f \<longleftrightarrow> f = Division_by_zero \<and> clip_load_traps env ng s"
proof -
  define T where "T = (case decoder_init_file env (s_file s) of
       None \<Rightarrow> False
     | Some dec \<Rightarrow> length_in_pcm_frames dec \<noteq> None \<and> outputSampleRate dec = 0)"
  have traps: "clip_load_traps env ng s = (file_path ng \<noteq> Some (s_file s) \<and> T)"
    by (simp add: clip_load_traps_def T_def)
  have load: "load_wav env d (s_file s) = Inl e \<longleftrightarrow> e = Division_by_zero \<and> T" for d e
    unfolding T_def by (rule load_wav_traps)
  show ?thesis
  proof (cases T)
    case True
    then have "load_wav env d (s_file s) = Inl Division_by_zero" for d
      by (simp add: load)
    then show ?thesis
      unfolding muted_update_def Let_def traps
      using True by auto
  next
    case False
    then have "load_wav env d (s_file s) \<noteq> Inl e" for d e
      by (simp add: load)
    then show ?thesis
      unfolding muted_update_def Let_def traps
      using False by (simp split: sum.splits)
  qed
qed

lemma muted_update_total:
  "\<not> clip_load_traps env ng s \<Longrightarrow> \<exists>ng'. muted_update env ng s = Inr ng'"
  by (cases "muted_update env ng s") (simp_all add: muted_update_traps)

lemma muted_update_reset:
  "muted_update env ng s = Inr ng' \<Longrightarrow>
     is_open ng' = False \<and> attenuation ng' = Fin 0 \<and> level ng' = Fin 0 \<and>
     held_time ng' = Fin 0"
  by (drule muted_update_shape, erule ssubst) simp

lemma update_zero_rate:
  "clip_load_traps host_zero_rate bzalloc_muted_data example_settings"
  by (simp add: clip_load_traps_def host_zero_rate_def host48k_def bzalloc_muted_data_def)

lemma update_same_clip:
  "\<not> clip_load_traps host48k talking48k example_settings"
  by (simp add: clip_load_traps_def talking48k_def configured48k_def example_settings_def
      muted_defaults_def)

lemma update_new_clip:
  "\<not> clip_load_traps host48k bzalloc_muted_data example_settings"
  by (simp add: clip_load_traps_def host48k_def)

subsection \<open>The level in silence\<close>




lemma decay_rate_nonneg:
  assumes "muted_update env ng0 s = Inr ng" "s_open_threshold s = Fin o_db"
    "s_close_threshold s = Fin c_db" "c_db \<le> o_db" "audio_output_sample_rate env \<noteq> 0"
  shows "\<exists>d. decay_rate ng = Fin d \<and> 0 \<le> d"
proof -
  define sr where "sr = real (unat (audio_output_sample_rate env))"
  have "unat (audio_output_sample_rate env) \<noteq> 0"
    using assms(5) by (simp add: unat_eq_0)
  then have sr: "0 < sr"
    unfolding sr_def by (simp only: of_nat_0_less_iff neq0_conv)
  have diff: "0 \<le> 10 powr (o_db / 20) - (10::real) powr (c_db / 20)"
    using assms(4) by (simp add: powr_mono)
  have "decay_rate ng = Fin ((10 powr (o_db / 20) - 10 powr (c_db / 20)) / (1 / 75 * sr))"
    using sr
    by (subst muted_update_shape [OF assms(1)])
      (simp add: assms(2,3) db_to_mul_def f_sub_def float_of_u32_def sr_def)
  moreover have "0 \<le> (10 powr (o_db / 20) - 10 powr (c_db / 20)) / (1 / 75 * sr)"
    using diff sr by (intro divide_nonneg_nonneg) simp_all
  ultimately show ?thesis
    by blast
qed

section \<open>Settings updates\<close>

text \<open>
  Claim C6. Every settings update resets the gate state, whatever the new parameter
  values and whatever the state before: \<^verbatim>\<open>muted_update\<close> completes and leaves the
  gate closed and attenuation, level and held time zero. The one exception is the
  integer division of \<^verbatim>\<open>load_wav\<close> on a decoder that reports a sample rate of 0 for
  a new clip, where the update traps instead of completing.
\<close>

theorem muted_update_resets_gate:
  "(muted_update env ng s = Inr ng' \<longrightarrow>
      is_open ng' = False \<and> attenuation ng' = Fin 0 \<and> level ng' = Fin 0 \<and>
      held_time ng' = Fin 0) \<and>
   (\<not> clip_load_traps env ng s \<longrightarrow>
      (\<exists>st. muted_update env ng s = Inr st \<and> is_open st = False \<and>
         attenuation st = Fin 0 \<and> level st = Fin 0 \<and> held_time st = Fin 0)) \<and>
   (clip_load_traps env ng s \<longrightarrow> muted_update env ng s = Inl Division_by_zero)"
proof -
  have "\<exists>st. muted_update env ng s = Inr st \<and> is_open st = False \<and>
         attenuation st = Fin 0 \<and> level st = Fin 0 \<and> held_time st = Fin 0"
    if "\<not> clip_load_traps env ng s"
  proof -
    from that obtain st where "muted_update env ng s = Inr st"
      using muted_update_total by blast
    with muted_update_reset [OF this] show ?thesis
      by blast
  qed
  then show ?thesis
    using muted_update_reset [of env ng s ng'] by (simp add: muted_update_traps)
qed

theorem muted_update_resets_gate_witness:
  "is_open talking48k \<and> attenuation talking48k = Fin (1 / 1200) \<and>
   level talking48k = Fin (31991 / 64000) \<and> held_time talking48k = Fin (1 / 48000) \<and>
   \<not> clip_load_traps host48k talking48k example_settings \<and>
   muted_update host48k talking48k example_settings =
     Inr (configured48k\<lparr>last_play_time := 5000\<rparr>) \<and>
   is_open (configured48k\<lparr>last_play_time := 5000\<rparr>) = False \<and>
   attenuation (configured48k\<lparr>last_play_time := 5000\<rparr>) = Fin 0 \<and>
   level (configured48k\<lparr>last_play_time := 5000\<rparr>) = Fin 0 \<and>
   held_time (configured48k\<lparr>last_play_time := 5000\<rparr>) = Fin 0 \<and>
   \<not> clip_load_traps host48k bzalloc_muted_data example_settings \<and>
   muted_update host48k bzalloc_muted_data example_settings = Inr configured48k \<and>
   clip_load_traps host_zero_rate bzalloc_muted_data example_settings \<and>
   muted_update host_zero_rate bzalloc_muted_data example_settings = Inl Division_by_zero"
  using muted_update_resets_gate [of host48k talking48k example_settings
      "configured48k\<lparr>last_play_time := 5000\<rparr>"]
    muted_update_resets_gate [of host48k bzalloc_muted_data example_settings configured48k]
    muted_update_resets_gate [of host_zero_rate bzalloc_muted_data example_settings configured48k]
    update_talking48k configured48k_eq update_zero_rate update_same_clip update_new_clip
  by (simp add: talking48k_def)

text \<open>
  Claim C10. A settings update leaves \<open>last_play_time\<close> (and \<open>ma_initialized\<close>)
  as it was. The old and the new state differ at most in the gate state, which is
  reset, in the values recomputed from the settings, and in the clip path, clip length
  and device name, which change when the clip or the device is reloaded. The clip
  length survives too when the clip path is unchanged. So a call of the filter after
  the update, at a clock reading that is not more than the file length plus the cooldown
  past the time of the trigger before the update, makes no request and leaves
  \<open>last_play_time\<close> alone.
\<close>

theorem muted_update_keeps_last_play_time:
  "muted_update env ng s = Inr ng' \<Longrightarrow>
     last_play_time ng' = last_play_time ng \<and>
     ma_initialized ng' = ma_initialized ng \<and>
     ng' = ng\<lparr>is_open := False, attenuation := Fin 0, level := Fin 0, held_time := Fin 0,
              sample_rate_i := sample_rate_i ng', channels := channels ng',
              open_threshold := open_threshold ng', close_threshold := close_threshold ng',
              attack_rate := attack_rate ng', release_rate := release_rate ng',
              decay_rate := decay_rate ng', hold_time := hold_time ng',
              cooldown := cooldown ng', audio_indicator := audio_indicator ng',
              visual_indicator := visual_indicator ng', indicator_size := indicator_size ng',
              file_path := file_path ng', file_length := file_length ng',
              device := device ng'\<rparr> \<and>
     (file_path ng = Some (s_file s) \<longrightarrow> file_length ng' = file_length ng) \<and>
     (\<not> file_length ng' + cooldown ng' < now_ns div 1000000 - last_play_time ng \<longrightarrow>
        snd (muted_filter_audio ng' muted audio now_ns) = [] \<and>
        last_play_time (fst (muted_filter_audio ng' muted audio now_ns)) = last_play_time ng)"
proof -
  assume upd: "muted_update env ng s = Inr ng'"
  have lpt: "last_play_time ng' = last_play_time ng"
    by (subst muted_update_shape [OF upd]) simp
  have mai: "ma_initialized ng' = ma_initialized ng"
    by (subst muted_update_shape [OF upd]) simp
  have others: "ng' = ng\<lparr>is_open := False, attenuation := Fin 0, level := Fin 0,
      held_time := Fin 0, sample_rate_i := sample_rate_i ng', channels := channels ng',
      open_threshold := open_threshold ng', close_threshold := close_threshold ng',
      attack_rate := attack_rate ng', release_rate := release_rate ng',
      decay_rate := decay_rate ng', hold_time := hold_time ng',
      cooldown := cooldown ng', audio_indicator := audio_indicator ng',
      visual_indicator := visual_indicator ng', indicator_size := indicator_size ng',
      file_path := file_path ng', file_length := file_length ng', device := device ng'\<rparr>"
    using muted_update_shape [OF upd] by (cases ng; cases ng') simp
  have fl: "file_length ng' = file_length ng" if "file_path ng = Some (s_file s)"
    using upd that
    unfolding muted_update_def Let_def
    by (auto simp: open_device_def free_device_def split: if_splits option.splits)
  show ?thesis
    using lpt mai fl others muted_filter_audio_quiet [of ng' now_ns muted audio]
    by simp
qed

theorem muted_update_keeps_last_play_time_witness:
  "muted_update host48k talking48k example_settings =
     Inr (configured48k\<lparr>last_play_time := 5000\<rparr>) \<and>
   last_play_time talking48k = 5000 \<and>
   last_play_time (configured48k\<lparr>last_play_time := 5000\<rparr>) = 5000 \<and>
   file_path talking48k = Some (s_file example_settings) \<and>
   file_length (configured48k\<lparr>last_play_time := 5000\<rparr>) = file_length talking48k \<and>
   \<not> file_length (configured48k\<lparr>last_play_time := 5000\<rparr>) +
       cooldown (configured48k\<lparr>last_play_time := 5000\<rparr>)
     < 7500000000 div 1000000 - last_play_time talking48k \<and>
   snd (muted_filter_audio (configured48k\<lparr>last_play_time := 5000\<rparr>) True
          (constant_audio (Fin (1 / 2)) 2) 7500000000) = [] \<and>
   last_play_time (fst (muted_filter_audio (configured48k\<lparr>last_play_time := 5000\<rparr>) True
          (constant_audio (Fin (1 / 2)) 2) 7500000000)) = 5000"
  using muted_update_keeps_last_play_time [OF update_talking48k, of 7500000000 True
      "constant_audio (Fin (1 / 2)) 2"] update_talking48k
  by (simp add: talking48k_def configured48k_def example_settings_def muted_defaults_def)

text \<open>
  Claim C8. After a successful load the stored clip length is the number of whole
  seconds of the clip times 1000: \<^verbatim>\<open>load_wav\<close> divides the frame count by the sample
  rate in integers before it multiplies (\<open>load_wav_file_length\<close>). For the decoder of
  \<open>host48k\<close>, which reports 72000 frames at 48000 Hz, a clip of 1500 ms, it stores 1000.
\<close>

theorem load_wav_whole_seconds:
  "decoder_init_file host48k ''urmuted.wav'' =
     Some \<lparr>outputSampleRate = 48000, length_in_pcm_frames = Some 72000\<rparr> \<and>
   load_wav host48k bzalloc_muted_data ''urmuted.wav'' =
     Inr (bzalloc_muted_data\<lparr>file_path := Some ''urmuted.wav'', file_length := 1000\<rparr>) \<and>
   (72000 * 1000 div 48000 :: 64 word) = 1500"
  by (simp add: load_wav_def host48k_def)

section \<open>The gate\<close>

text \<open>
  Claim C4. Within the sample loop an open gate closes only at a sample that finds the
  level carried over from the sample before below the close threshold, and an open gate
  whose carried level is not below the close threshold stays open whatever the level of
  the current sample is, a dip to silence included. The third part says the same of the
  states before and after sample \<open>n\<close> of a buffer.
\<close>

theorem gate_closes_only_on_low_level:
  "(is_open ng \<and> \<not> is_open (process_sample ng c) \<longrightarrow>
      f_less (level ng) (close_threshold ng)) \<and>
   (is_open ng \<and> \<not> f_less (level ng) (close_threshold ng) \<longrightarrow>
      is_open (process_sample ng c)) \<and>
   (is_open (gate_loop ad n 0 ng) \<and> \<not> is_open (gate_loop ad (Suc n) 0 ng) \<longrightarrow>
      f_less (level (gate_loop ad n 0 ng)) (close_threshold ng))"
proof -
  have "close_threshold (gate_loop ad n 0 ng) = close_threshold ng"
    by (simp add: gate_loop_frame)
  then show ?thesis
    by (auto simp: is_open_process_sample gate_loop_Suc)
qed

theorem gate_closes_only_on_low_level_witness:
  "is_open talking48k \<and> \<not> f_less (level talking48k) (close_threshold talking48k) \<and>
   f_less (Fin 0) (close_threshold talking48k) \<and>
   is_open (process_sample talking48k (Fin 0)) \<and>
   is_open fading48k \<and> \<not> is_open (process_sample fading48k (Fin (1 / 2))) \<and>
   f_less (level fading48k) (close_threshold fading48k) \<and>
   is_open (gate_loop (\<lambda>j i. Fin (1 / 2)) 0 0 fading48k) \<and>
   \<not> is_open (gate_loop (\<lambda>j i. Fin (1 / 2)) (Suc 0) 0 fading48k)"
  using gate_closes_only_on_low_level [of talking48k "Fin 0" "\<lambda>j i. Fin 0" 0]
    gate_closes_only_on_low_level [of fading48k "Fin (1 / 2)" "\<lambda>j i. Fin (1 / 2)" 0]
  by (simp add: is_open_process_sample gate_loop_Suc gate_loop.simps
      fading48k_def talking48k_def configured48k_def)

text \<open>
  Claim C3, as the code has it. A closed gate is open at the end of a sample in which
  the absolute value of some channel exceeds the open threshold, provided the level
  carried over from the sample before is not below the close threshold; and a sample
  whose level does not exceed the open threshold never opens a closed gate. With at
  least one channel, the level of a sample does not exceed the threshold when no
  channel's absolute value does.
\<close>

theorem gate_opens_on_loud_sample:
  "\<not> is_open ng \<Longrightarrow>
     ((\<exists>j<channels ng. f_less (open_threshold ng) (fabsf (ad j i))) \<and>
      \<not> f_less (level ng) (close_threshold ng) \<longrightarrow>
        is_open (process_sample ng (cur_level_of (channels ng) ad i))) \<and>
     (\<not> f_less (open_threshold ng) (cur_level_of (channels ng) ad i) \<longrightarrow>
        \<not> is_open (process_sample ng (cur_level_of (channels ng) ad i))) \<and>
     (0 < channels ng \<and> (\<forall>j<channels ng. \<not> f_less (open_threshold ng) (fabsf (ad j i))) \<longrightarrow>
        \<not> f_less (open_threshold ng) (cur_level_of (channels ng) ad i))"
  by (auto simp: is_open_process_sample f_less_cur_level_of)

theorem gate_opens_on_loud_sample_witness:
  "\<not> is_open warm48k \<and> channels warm48k = 2 \<and>
   f_less (open_threshold warm48k) (fabsf (Fin (- 1 / 2))) \<and>
   \<not> f_less (level warm48k) (close_threshold warm48k) \<and>
   is_open (process_sample warm48k (cur_level_of (channels warm48k) (\<lambda>j i. Fin (- 1 / 2)) 0)) \<and>
   \<not> f_less (open_threshold warm48k) (fabsf (Fin (1 / 10))) \<and>
   \<not> f_less (open_threshold warm48k) (cur_level_of (channels warm48k) (\<lambda>j i. Fin (1 / 10)) 0) \<and>
   \<not> is_open (process_sample warm48k (cur_level_of (channels warm48k) (\<lambda>j i. Fin (1 / 10)) 0))"
  using gate_opens_on_loud_sample [of warm48k "\<lambda>j i. Fin (- 1 / 2)" 0]
    gate_opens_on_loud_sample [of warm48k "\<lambda>j i. Fin (1 / 10)" 0]
  by (auto simp: warm48k_def talking48k_def configured48k_def cur_level_of_constant
      is_open_process_sample)

text \<open>
  The claim as stated fails on the freshly configured filter: its level is 0, below the
  close threshold, so a first sample of amplitude 1/2 on both channels, above the open
  threshold of 1/10, opens the gate and closes it again in the same iteration.
\<close>

theorem gate_opens_within_one_sample_counterexample:
  "\<not> is_open configured48k \<and>
   f_less (open_threshold configured48k)
     (cur_level_of (channels configured48k) (adata (constant_audio (Fin (1 / 2)) 1)) 0) \<and>
   \<not> is_open (process_sample configured48k
     (cur_level_of (channels configured48k) (adata (constant_audio (Fin (1 / 2)) 1)) 0)) \<and>
   \<not> is_open (fst (muted_filter_audio configured48k True (constant_audio (Fin (1 / 2)) 1)
      5000000000))"
  by (simp add: muted_filter_audio_def constant_audio_def gate_loop.simps cur_level_of_constant
      is_open_process_sample configured48k_def Let_def)

text \<open>
  Claim C9, as the code has it. From a closed gate whose level is below the close
  threshold, a sample above the open threshold leaves the gate closed; the close branch
  resets the held time to 0 and the closed-gate branch of the same iteration then adds
  one sample period, so the held time at the end of the sample is \<open>sample_rate_i\<close>. The
  level becomes the sample's level less the decay, and the next sample opens the gate
  exactly when it is above the open threshold and that level is not below the close
  threshold.
\<close>

theorem first_loud_sample_leaves_gate_closed:
  "\<not> is_open ng \<Longrightarrow> f_less (level ng) (close_threshold ng) \<Longrightarrow>
   f_less (open_threshold ng) c \<Longrightarrow>
     \<not> is_open (process_sample ng c) \<and>
     held_time (process_sample ng c) = sample_rate_i ng \<and>
     level (process_sample ng c) = f_sub (fmaxf (level ng) c) (decay_rate ng) \<and>
     is_open (process_sample (process_sample ng c) c2) =
       (f_less (open_threshold ng) c2 \<and>
        \<not> f_less (f_sub (fmaxf (level ng) c) (decay_rate ng)) (close_threshold ng))"
  by (simp add: is_open_process_sample held_time_process_sample level_process_sample
      process_sample_frame f_add_zero_left)

theorem first_loud_sample_leaves_gate_closed_witness:
  "\<not> is_open configured48k \<and> f_less (level configured48k) (close_threshold configured48k) \<and>
   f_less (open_threshold configured48k) (Fin (1 / 2)) \<and>
   \<not> is_open (process_sample configured48k (Fin (1 / 2))) \<and>
   held_time (process_sample configured48k (Fin (1 / 2))) = Fin (1 / 48000) \<and>
   level (process_sample configured48k (Fin (1 / 2))) = Fin (31991 / 64000) \<and>
   is_open (process_sample (process_sample configured48k (Fin (1 / 2))) (Fin (1 / 2)))"
  using first_loud_sample_leaves_gate_closed [of configured48k "Fin (1 / 2)" "Fin (1 / 2)"]
  by (simp add: configured48k_def fmaxf_def f_sub_def)

text \<open>
  The held time is not 0 at the end of that sample: on the freshly configured filter it
  is one sample period, 1/48000 s.
\<close>

theorem held_time_after_first_loud_sample_counterexample:
  "\<not> is_open configured48k \<and> f_less (level configured48k) (close_threshold configured48k) \<and>
   f_less (open_threshold configured48k)
     (cur_level_of (channels configured48k) (adata (constant_audio (Fin (1 / 2)) 1)) 0) \<and>
   held_time (process_sample configured48k
     (cur_level_of (channels configured48k) (adata (constant_audio (Fin (1 / 2)) 1)) 0))
     = Fin (1 / 48000) \<and>
   held_time (fst (muted_filter_audio configured48k True (constant_audio (Fin (1 / 2)) 1)
      5000000000)) \<noteq> Fin 0"
  by (simp add: muted_filter_audio_def constant_audio_def gate_loop.simps cur_level_of_constant
      is_open_process_sample held_time_process_sample configured48k_def Let_def)

section \<open>The envelope\<close>

text \<open>
  Claim C2. Configure the filter with attack and release times that, as the
  \<^verbatim>\<open>int\<close>s the update reads, are not negative (the settings range is 0 to 10000 ms).
  Then after any sequence of calls of the filter, and after each sample of the buffer
  that follows them, the attenuation lies in the closed interval from 0 to 1. The state
  \<open>gate_loop ad k 0 st\<close> is the one after the first \<open>k\<close> samples of a buffer
  \<open>ad\<close> processed from \<open>st\<close> (\<open>gate_loop_prefix\<close>, \<open>gate_loop_Suc\<close>).
\<close>

theorem attenuation_in_unit_interval:
  "muted_update env ng0 s = Inr ng \<Longrightarrow> 0 \<le> int_cast (s_attack_time s) \<Longrightarrow>
   0 \<le> int_cast (s_release_time s) \<Longrightarrow>
     unit_interval (attenuation (gate_loop ad k 0 (run_state ng calls)))"
  using att_inv_gate_loop [OF att_inv_run_state [OF att_inv_muted_update]]
  by (simp add: att_inv_def)

theorem attenuation_in_unit_interval_witness:
  "muted_update host48k bzalloc_muted_data example_settings = Inr configured48k \<and>
   0 \<le> int_cast (s_attack_time example_settings) \<and>
   0 \<le> int_cast (s_release_time example_settings) \<and>
   attenuation (gate_loop (\<lambda>j i. Fin (1 / 2)) 1 0
     (run_state configured48k [(True, constant_audio (Fin (1 / 2)) 2, 5000000000)]))
     = Fin (1 / 600) \<and>
   unit_interval (attenuation (gate_loop (\<lambda>j i. Fin (1 / 2)) 1 0
     (run_state configured48k [(True, constant_audio (Fin (1 / 2)) 2, 5000000000)])))"
  using attenuation_in_unit_interval [OF configured48k_eq, of "\<lambda>j i. Fin (1 / 2)" 1
      "[(True, constant_audio (Fin (1 / 2)) 2, 5000000000)]"] configured48k_eq
  unfolding run_one
  by (simp add: example_settings_def muted_defaults_def int_cast_id
      gate_loop.simps attenuation_process_sample is_open_process_sample
      talking48k_def configured48k_def fminf_def)




section \<open>The trigger\<close>

text \<open>
  Claim C5. A call made while the parent source is not muted closes the gate, changes
  nothing else and makes no request. After it no call makes a request, the gate stays
  closed and \<open>last_play_time\<close> stays as it was for as long as every call either finds
  the source unmuted or brings no sample above the open threshold: a trigger needs the
  source muted again and a sample above the open threshold.
\<close>

theorem unmuted_closes_gate_and_blocks_trigger:
  "muted_filter_audio ng False audio now_ns = (ng\<lparr>is_open := False\<rparr>, []) \<and>
   (list_all (quiet_call ng) calls \<longrightarrow>
      run_effects (ng\<lparr>is_open := False\<rparr>) calls = [] \<and>
      \<not> is_open (run_state (ng\<lparr>is_open := False\<rparr>) calls) \<and>
      last_play_time (run_state (ng\<lparr>is_open := False\<rparr>) calls) = last_play_time ng)"
  using quiet_run [of ng calls "ng\<lparr>is_open := False\<rparr>"]
  by (simp add: muted_filter_audio_unmuted)

theorem unmuted_closes_gate_and_blocks_trigger_witness:
  "is_open talking48k \<and>
   muted_filter_audio talking48k False (constant_audio (Fin (1 / 2)) 2) 20000000000 =
     (talking48k\<lparr>is_open := False\<rparr>, []) \<and>
   list_all (quiet_call talking48k)
     [(False, constant_audio (Fin (1 / 2)) 2, 20010000000),
      (True, constant_audio (Fin (1 / 20)) 2, 20020000000)] \<and>
   run_effects (talking48k\<lparr>is_open := False\<rparr>)
     [(False, constant_audio (Fin (1 / 2)) 2, 20010000000),
      (True, constant_audio (Fin (1 / 20)) 2, 20020000000)] = [] \<and>
   snd (muted_filter_audio talking48k True (constant_audio (Fin (1 / 2)) 2) 20000000000) =
     [Play_audio, Indicator_show 1500 45]"
proof -
  have q: "list_all (quiet_call talking48k)
     [(False, constant_audio (Fin (1 / 2)) 2, 20010000000),
      (True, constant_audio (Fin (1 / 20)) 2, 20020000000)]"
    by (simp add: quiet_call_def constant_audio_def cur_level_of_constant talking48k_def
        configured48k_def)
  have f: "snd (muted_filter_audio talking48k True (constant_audio (Fin (1 / 2)) 2) 20000000000) =
     [Play_audio, Indicator_show 1500 45]"
    by (simp add: muted_filter_audio_def constant_audio_def gate_loop.simps
        cur_level_of_constant is_open_process_sample process_sample_frame level_process_sample
        Let_def talking48k_def configured48k_def fmaxf_def f_sub_def gate_loop_frame)
  show ?thesis
    using unmuted_closes_gate_and_blocks_trigger [of talking48k
        "constant_audio (Fin (1 / 2)) 2" 20000000000
        "[(False, constant_audio (Fin (1 / 2)) 2, 20010000000),
          (True, constant_audio (Fin (1 / 20)) 2, 20020000000)]"] q f
    by (simp add: talking48k_def)
qed

text \<open>
  Claim C1, as the code has it. Let the last trigger have been at \<open>last_play_time\<close>.
  No call whose clock reading is at most the file length plus the cooldown past it makes
  a request or moves \<open>last_play_time\<close>, whatever the gate does. The first call after
  them whose clock reading is strictly more than that past it, with the source muted
  and the gate open at the end of its buffer, requests the enabled indicators and sets
  \<open>last_play_time\<close> to its clock reading. Times are in milliseconds, in the unsigned
  64-bit arithmetic of the callback (\<open>trigger_test_nat\<close> reads the test in the natural
  numbers).
\<close>

theorem trigger_after_refractory_window:
  "list_all (within_window ng) pre \<Longrightarrow>
     run_effects ng pre = [] \<and>
     last_play_time (run_state ng pre) = last_play_time ng \<and>
     (is_open (gate_loop (adata audio) (frames audio) 0 (run_state ng pre)) \<and>
      \<not> within_window ng (True, audio, now_ns) \<longrightarrow>
        snd (filter_call (run_state ng pre) (True, audio, now_ns)) =
          (if audio_indicator ng then [Play_audio] else []) @
          (if visual_indicator ng then [Indicator_show (cooldown ng) (indicator_size ng)]
           else []) \<and>
        last_play_time (fst (filter_call (run_state ng pre) (True, audio, now_ns))) =
          now_ns div 1000000)"
proof -
  assume pre: "list_all (within_window ng) pre"
  have run: "run_effects ng pre = [] \<and> last_play_time (run_state ng pre) = last_play_time ng"
    using pre by (rule window_run) simp_all
  then show ?thesis
    by (simp add: filter_call_def muted_filter_audio_def Let_def gate_loop_frame
        run_state_frame within_window_def)
qed

theorem trigger_after_refractory_window_witness:
  "list_all (within_window talking48k)
     [(True, constant_audio (Fin (1 / 2)) 2, 6000000000),
      (True, constant_audio (Fin (1 / 2)) 2, 7500000000)] \<and>
   run_effects talking48k
     [(True, constant_audio (Fin (1 / 2)) 2, 6000000000),
      (True, constant_audio (Fin (1 / 2)) 2, 7500000000)] = [] \<and>
   run_state talking48k
     [(True, constant_audio (Fin (1 / 2)) 2, 6000000000),
      (True, constant_audio (Fin (1 / 2)) 2, 7500000000)] =
     talking48k\<lparr>attenuation := Fin (1 / 240)\<rparr> \<and>
   is_open (gate_loop (adata (constant_audio (Fin (1 / 2)) 2))
     (frames (constant_audio (Fin (1 / 2)) 2)) 0 (talking48k\<lparr>attenuation := Fin (1 / 240)\<rparr>)) \<and>
   \<not> within_window talking48k (True, constant_audio (Fin (1 / 2)) 2, 7501000000) \<and>
   snd (filter_call (talking48k\<lparr>attenuation := Fin (1 / 240)\<rparr>)
     (True, constant_audio (Fin (1 / 2)) 2, 7501000000)) =
     [Play_audio, Indicator_show 1500 45] \<and>
   last_play_time (fst (filter_call (talking48k\<lparr>attenuation := Fin (1 / 240)\<rparr>)
     (True, constant_audio (Fin (1 / 2)) 2, 7501000000))) = 7501"
proof -
  let ?pre = "[(True, constant_audio (Fin (1 / 2)) 2, 6000000000),
      (True, constant_audio (Fin (1 / 2)) 2, 7500000000)]"
  have w: "list_all (within_window talking48k) ?pre"
    by (simp add: within_window_def talking48k_def configured48k_def)
  have nw: "\<not> within_window talking48k (True, constant_audio (Fin (1 / 2)) 2, 7501000000)"
    by (simp add: within_window_def talking48k_def configured48k_def)
  have op: "is_open (gate_loop (adata (constant_audio (Fin (1 / 2)) 2))
     (frames (constant_audio (Fin (1 / 2)) 2)) 0 (talking48k\<lparr>attenuation := Fin (1 / 240)\<rparr>))"
    by (simp add: constant_audio_def gate_loop.simps cur_level_of_constant
        is_open_process_sample level_process_sample process_sample_frame
        configured48k_def talking48k_def fmaxf_def f_sub_def)
  have ind: "audio_indicator talking48k" "visual_indicator talking48k"
    "cooldown talking48k = 1500" "indicator_size talking48k = 45"
    by (simp_all add: talking48k_def configured48k_def)
  show ?thesis
    using trigger_after_refractory_window [OF w, of "constant_audio (Fin (1 / 2)) 2" 7501000000]
      w nw op talking48k_two_more_buffers
    unfolding talking48k_two_more_buffers
    by (simp add: ind)
qed

text \<open>
  At exactly the file length plus the cooldown past the last trigger, with the gate open,
  no trigger fires: the test is a strict inequality. Here the trigger was at 5000 ms,
  the window is 1000 + 1500 ms, and the call comes at 7500 ms.
\<close>

theorem trigger_at_window_end_counterexample:
  "is_open talking48k \<and> last_play_time talking48k = 5000 \<and>
   file_length talking48k + cooldown talking48k = 2500 \<and>
   (7500000000 :: 64 word) div 1000000 - last_play_time talking48k = 2500 \<and>
   is_open (fst (muted_filter_audio talking48k True (constant_audio (Fin (1 / 2)) 2)
     7500000000)) \<and>
   snd (muted_filter_audio talking48k True (constant_audio (Fin (1 / 2)) 2) 7500000000) = [] \<and>
   last_play_time (fst (muted_filter_audio talking48k True (constant_audio (Fin (1 / 2)) 2)
     7500000000)) = 5000"
  by (simp add: muted_filter_audio_def constant_audio_def gate_loop.simps
      cur_level_of_constant process_sample_def Let_def configured48k_def talking48k_def
      fmaxf_def fminf_def f_sub_def)

end
